theory Spec2Isabelle
  imports Complex_Main "HOL-Library.Word"
begin

section \<open>JavaScript strings\<close>

text \<open>
  A JavaScript string is a sequence of UTF-16 code units. The regular expressions of
  \<^verbatim>\<open>normalizeText\<close> carry no \<^verbatim>\<open>u\<close> flag, so they work on code units too.
\<close>

type_synonym code_unit = "16 word"
type_synonym jsstring = "code_unit list"

text \<open>A literal whose characters all lie below U+0100: every byte is its own code unit.\<close>

definition latin1 :: "string \<Rightarrow> jsstring" where
  "latin1 cs = map (\<lambda>c. of_nat (of_char c)) cs"

text \<open>
  The character class \<^verbatim>\<open>\s\<close> and the characters removed by \<^verbatim>\<open>trim()\<close> are the same set:
  WhiteSpace and LineTerminator of ECMAScript.
\<close>

definition isWhiteSpace :: "code_unit \<Rightarrow> bool" where
  "isWhiteSpace c \<longleftrightarrow>
     (0x0009 \<le> c \<and> c \<le> 0x000D) \<or> c = 0x0020 \<or> c = 0x00A0 \<or> c = 0x1680 \<or>
     (0x2000 \<le> c \<and> c \<le> 0x200A) \<or> c = 0x2028 \<or> c = 0x2029 \<or> c = 0x202F \<or>
     c = 0x205F \<or> c = 0x3000 \<or> c = 0xFEFF"

definition isLowerAlnum :: "code_unit \<Rightarrow> bool" where
  "isLowerAlnum c \<longleftrightarrow> (0x61 \<le> c \<and> c \<le> 0x7A) \<or> (0x30 \<le> c \<and> c \<le> 0x39)"

text \<open>The class of the first replacement: the code units U+0300 to U+036F.\<close>

definition isCombiningMark :: "code_unit \<Rightarrow> bool" where
  "isCombiningMark c \<longleftrightarrow> 0x0300 \<le> c \<and> c \<le> 0x036F"

text \<open>The characters that \<^verbatim>\<open>[^a-z0-9\s]\<close> does not match, so that the replacement keeps them.\<close>

definition isKept :: "code_unit \<Rightarrow> bool" where
  "isKept c \<longleftrightarrow> isLowerAlnum c \<or> isWhiteSpace c"

definition trim :: "jsstring \<Rightarrow> jsstring" where
  "trim s = rev (dropWhile isWhiteSpace (rev (dropWhile isWhiteSpace s)))"

section \<open>The Unicode functions of the runtime\<close>

text \<open>
  \<^verbatim>\<open>String.prototype.toLowerCase\<close> and \<^verbatim>\<open>String.prototype.normalize("NFD")\<close> are driven by
  the Unicode character database of the JavaScript engine, which is no part of the
  repository. They are parameters of the model.
\<close>

record unicode =
  toLowerCase :: "jsstring \<Rightarrow> jsstring"
  normalizeNFD :: "jsstring \<Rightarrow> jsstring"

text \<open>
  What the proofs use of the Unicode database: no kept character has a lowercase mapping;
  of the kept characters only U+2000 and U+2001 have a canonical decomposition (to U+2002
  and U+2003), so they never occur in a decomposed string, and a string of the other kept
  characters is its own decomposition.
\<close>

definition unicode_facts :: "unicode \<Rightarrow> bool" where
  "unicode_facts u \<longleftrightarrow>
     (\<forall>s. (\<forall>c \<in> set s. isKept c) \<longrightarrow> toLowerCase u s = s) \<and>
     (\<forall>s. (\<forall>c \<in> set s. isKept c \<and> c \<noteq> 0x2000 \<and> c \<noteq> 0x2001) \<longrightarrow> normalizeNFD u s = s) \<and>
     (\<forall>s. 0x2000 \<notin> set (normalizeNFD u s) \<and> 0x2001 \<notin> set (normalizeNFD u s))"

text \<open>
  A concrete instance for evaluation. It agrees with the Unicode database on every string
  whose code units are below U+0100 or are white space: the uppercase letters of Basic
  Latin and Latin-1 Supplement, and the canonical decompositions of the Latin-1 letters
  and of the two quad spaces.
\<close>

definition lower_unit :: "code_unit \<Rightarrow> code_unit" where
  "lower_unit c =
     (if (0x41 \<le> c \<and> c \<le> 0x5A) \<or> (0xC0 \<le> c \<and> c \<le> 0xDE \<and> c \<noteq> 0xD7) then c + 0x20 else c)"

definition latin1_decompositions :: "(code_unit \<times> jsstring) list" where
  "latin1_decompositions =
    [(0xC0, [0x41, 0x300]), (0xC1, [0x41, 0x301]), (0xC2, [0x41, 0x302]), (0xC3, [0x41, 0x303]),
     (0xC4, [0x41, 0x308]), (0xC5, [0x41, 0x30A]), (0xC7, [0x43, 0x327]), (0xC8, [0x45, 0x300]),
     (0xC9, [0x45, 0x301]), (0xCA, [0x45, 0x302]), (0xCB, [0x45, 0x308]), (0xCC, [0x49, 0x300]),
     (0xCD, [0x49, 0x301]), (0xCE, [0x49, 0x302]), (0xCF, [0x49, 0x308]), (0xD1, [0x4E, 0x303]),
     (0xD2, [0x4F, 0x300]), (0xD3, [0x4F, 0x301]), (0xD4, [0x4F, 0x302]), (0xD5, [0x4F, 0x303]),
     (0xD6, [0x4F, 0x308]), (0xD9, [0x55, 0x300]), (0xDA, [0x55, 0x301]), (0xDB, [0x55, 0x302]),
     (0xDC, [0x55, 0x308]), (0xDD, [0x59, 0x301]),
     (0xE0, [0x61, 0x300]), (0xE1, [0x61, 0x301]), (0xE2, [0x61, 0x302]), (0xE3, [0x61, 0x303]),
     (0xE4, [0x61, 0x308]), (0xE5, [0x61, 0x30A]), (0xE7, [0x63, 0x327]), (0xE8, [0x65, 0x300]),
     (0xE9, [0x65, 0x301]), (0xEA, [0x65, 0x302]), (0xEB, [0x65, 0x308]), (0xEC, [0x69, 0x300]),
     (0xED, [0x69, 0x301]), (0xEE, [0x69, 0x302]), (0xEF, [0x69, 0x308]), (0xF1, [0x6E, 0x303]),
     (0xF2, [0x6F, 0x300]), (0xF3, [0x6F, 0x301]), (0xF4, [0x6F, 0x302]), (0xF5, [0x6F, 0x303]),
     (0xF6, [0x6F, 0x308]), (0xF9, [0x75, 0x300]), (0xFA, [0x75, 0x301]), (0xFB, [0x75, 0x302]),
     (0xFC, [0x75, 0x308]), (0xFD, [0x79, 0x301]), (0xFF, [0x79, 0x308]),
     (0x2000, [0x2002]), (0x2001, [0x2003])]"

definition decompose_unit :: "code_unit \<Rightarrow> jsstring" where
  "decompose_unit c = (case map_of latin1_decompositions c of Some d \<Rightarrow> d | None \<Rightarrow> [c])"

definition latin1_unicode :: unicode where
  "latin1_unicode =
     \<lparr> toLowerCase = map lower_unit, normalizeNFD = (\<lambda>s. concat (map decompose_unit s)) \<rparr>"

section \<open>The text normalizer\<close>

text \<open>
  \<^verbatim>\<open>text.toLowerCase().normalize("NFD").replace(/[U+0300-U+036F]/g, "")
       .replace(/[^a-z0-9\s]/g, "").trim()\<close>
\<close>

definition normalizeText :: "unicode \<Rightarrow> jsstring \<Rightarrow> jsstring" where
  "normalizeText u text =
     trim (filter isKept (filter (\<lambda>c. \<not> isCombiningMark c) (normalizeNFD u (toLowerCase u text))))"

section \<open>JavaScript values and the conversion of a string to a number\<close>

text \<open>
  A number carries the mathematical value of the literal it was read from (the engine
  rounds that value to the nearest double, which is not modelled; the two zeros are one).
  The flag of \<open>Infinity\<close> is \<open>True\<close> for the negative one.
\<close>

datatype jsnum = NaN | Infinity bool | Finite rat

datatype jsval = Str jsstring | Num jsnum

definition isDigit :: "code_unit \<Rightarrow> bool" where
  "isDigit c \<longleftrightarrow> 0x30 \<le> c \<and> c \<le> 0x39"

definition isHexDigit :: "code_unit \<Rightarrow> bool" where
  "isHexDigit c \<longleftrightarrow> isDigit c \<or> (0x61 \<le> c \<and> c \<le> 0x66) \<or> (0x41 \<le> c \<and> c \<le> 0x46)"

definition digitValue :: "code_unit \<Rightarrow> nat" where
  "digitValue c =
     (if isDigit c then unat c - 48 else if 0x61 \<le> c then unat c - 87 else unat c - 55)"

definition digitsValue :: "nat \<Rightarrow> jsstring \<Rightarrow> nat" where
  "digitsValue base ds = foldl (\<lambda>acc d. acc * base + digitValue d) 0 ds"

definition scale :: "nat \<Rightarrow> int \<Rightarrow> rat" where
  "scale m e = (if 0 \<le> e then of_nat m * 10 ^ nat e else of_nat m / 10 ^ nat (- e))"

definition negate :: "jsnum \<Rightarrow> jsnum" where
  "negate n = (case n of NaN \<Rightarrow> NaN | Infinity b \<Rightarrow> Infinity (\<not> b) | Finite q \<Rightarrow> Finite (- q))"

text \<open>\<^verbatim>\<open>0x\<close>, \<^verbatim>\<open>0o\<close> and \<^verbatim>\<open>0b\<close> literals (either case of the letter), unsigned.\<close>

definition nonDecimalIntegerLiteral :: "jsstring \<Rightarrow> nat option" where
  "nonDecimalIntegerLiteral t =
     (case t of
        z # p # ds \<Rightarrow>
          if z = 0x30 \<and> ds \<noteq> [] then
            if (p = 0x78 \<or> p = 0x58) \<and> list_all isHexDigit ds then Some (digitsValue 16 ds)
            else if (p = 0x6F \<or> p = 0x4F) \<and> list_all (\<lambda>c. 0x30 \<le> c \<and> c \<le> 0x37) ds
              then Some (digitsValue 8 ds)
            else if (p = 0x62 \<or> p = 0x42) \<and> list_all (\<lambda>c. c = 0x30 \<or> c = 0x31) ds
              then Some (digitsValue 2 ds)
            else None
          else None
      | _ \<Rightarrow> None)"

definition decimalDigits :: "jsstring \<Rightarrow> int option" where
  "decimalDigits ds =
     (if ds \<noteq> [] \<and> list_all isDigit ds then Some (int (digitsValue 10 ds)) else None)"

definition signedInteger :: "jsstring \<Rightarrow> int option" where
  "signedInteger r =
     (case r of
        [] \<Rightarrow> None
      | c # ds \<Rightarrow>
          if c = 0x2B then decimalDigits ds
          else if c = 0x2D then map_option uminus (decimalDigits ds)
          else decimalDigits r)"

text \<open>What follows the mantissa: nothing, or \<^verbatim>\<open>e\<close> or \<^verbatim>\<open>E\<close> and a signed integer.\<close>

definition exponentPart :: "jsstring \<Rightarrow> int option" where
  "exponentPart r =
     (case r of
        [] \<Rightarrow> Some 0
      | c # r' \<Rightarrow> if c = 0x65 \<or> c = 0x45 then signedInteger r' else None)"

definition strUnsignedDecimalLiteral :: "jsstring \<Rightarrow> jsnum" where
  "strUnsignedDecimalLiteral t =
     (if t = latin1 ''Infinity'' then Infinity False
      else
        let ip = takeWhile isDigit t;
            r = dropWhile isDigit t;
            fr = (case r of
                    [] \<Rightarrow> ([], [])
                  | c # r1 \<Rightarrow>
                      if c = 0x2E then (takeWhile isDigit r1, dropWhile isDigit r1) else ([], r))
        in if ip = [] \<and> fst fr = [] then NaN
           else (case exponentPart (snd fr) of
                   None \<Rightarrow> NaN
                 | Some e \<Rightarrow> Finite (scale (digitsValue 10 (ip @ fst fr)) (e - int (length (fst fr))))))"

definition strDecimalLiteral :: "jsstring \<Rightarrow> jsnum" where
  "strDecimalLiteral t =
     (case t of
        [] \<Rightarrow> NaN
      | c # r \<Rightarrow>
          if c = 0x2B then strUnsignedDecimalLiteral r
          else if c = 0x2D then negate (strUnsignedDecimalLiteral r)
          else strUnsignedDecimalLiteral t)"

text \<open>
  StringToNumber of ECMAScript: white space around the literal is dropped, the empty
  string is 0, and a string that is no numeric literal as a whole is NaN.
\<close>

definition StringToNumber :: "jsstring \<Rightarrow> jsnum" where
  "StringToNumber s =
     (let t = trim s
      in if t = [] then Finite 0
         else (case nonDecimalIntegerLiteral t of
                 Some n \<Rightarrow> Finite (of_nat n)
               | None \<Rightarrow> strDecimalLiteral t))"

text \<open>\<^verbatim>\<open>Number(v)\<close> and the global \<^verbatim>\<open>isNaN(v)\<close>, on a string or a number.\<close>

definition js_Number :: "jsval \<Rightarrow> jsnum" where
  "js_Number v = (case v of Str s \<Rightarrow> StringToNumber s | Num n \<Rightarrow> n)"

definition js_isNaN :: "jsval \<Rightarrow> bool" where
  "js_isNaN v \<longleftrightarrow> js_Number v = NaN"

definition truthy :: "jsval \<Rightarrow> bool" where
  "truthy v = (case v of Str s \<Rightarrow> s \<noteq> [] | Num n \<Rightarrow> n \<noteq> NaN \<and> n \<noteq> Finite 0)"

section \<open>Objects and the heap\<close>

text \<open>
  The settings object is shared between the cache of the sheet service and the chat
  service, and is written in place, so it lives in a heap: an address is an index into the
  list of objects. Objects are never removed, so an address that \<open>alloc\<close> handed out
  stays valid. An object is the list of its own properties in the order of their
  creation.
\<close>

type_synonym obj = "(jsstring \<times> jsval) list"
type_synonym heap = "obj list"

fun update_prop :: "jsstring \<Rightarrow> jsval \<Rightarrow> obj \<Rightarrow> obj" where
  "update_prop k v [] = [(k, v)]"
| "update_prop k v (p # ps) = (if fst p = k then (k, v) # ps else p # update_prop k v ps)"

text \<open>
  \<^verbatim>\<open>o[k] = v\<close> on an object created by \<^verbatim>\<open>{}\<close>. The key \<^verbatim>\<open>__proto__\<close> reaches the setter
  inherited from \<^verbatim>\<open>Object.prototype\<close>, which ignores a string or a number.
\<close>

definition setProp :: "jsstring \<Rightarrow> jsval \<Rightarrow> obj \<Rightarrow> obj" where
  "setProp k v ob = (if k = latin1 ''__proto__'' then ob else update_prop k v ob)"

definition getProp :: "obj \<Rightarrow> jsstring \<Rightarrow> jsval option" where
  "getProp ob k = map_of ob k"

definition alloc :: "heap \<Rightarrow> obj \<Rightarrow> nat \<times> heap" where
  "alloc h ob = (length h, h @ [ob])"

section \<open>Collaborators and effects\<close>

datatype exn = Exn string

datatype 'a completion = Returned 'a | Thrown exn

type_synonym row = "jsstring list"

text \<open>
  The spreadsheet behind \<^verbatim>\<open>this.sheets.spreadsheets.values\<close>: \<open>values_get\<close> answers a range
  with \<^verbatim>\<open>response.data.values\<close> (absent for an empty range) or throws; \<open>values_update\<close>
  is the write of one value to the cell \<^verbatim>\<open>Mensajes_Programados!F<rowIndex>\<close>.
\<close>

record sheets_api =
  values_get :: "string \<Rightarrow> exn + row list option"
  values_update :: "nat \<Rightarrow> jsstring \<Rightarrow> exn + unit"

record message =
  role :: jsstring
  content :: jsval

text \<open>\<^verbatim>\<open>chatHistoryService\<close> of \<^verbatim>\<open>chat-history.js\<close>, which is not among the sources.\<close>

record chat_history =
  getContextForAI :: "jsstring \<Rightarrow> exn + message list"
  saveMessage :: "jsstring \<Rightarrow> jsstring \<Rightarrow> jsstring \<Rightarrow> exn + unit"

text \<open>The calls a function makes to its collaborators, in order.\<close>

datatype api_call =
    ValuesGet string
  | ValuesUpdate nat jsstring
  | GetContextForAI jsstring
  | SaveMessage jsstring jsstring jsstring
  | ChatCompletion "message list"

section \<open>The sheet service\<close>

record flow =
  addKeyword :: "jsstring option"
  addAnswer :: "jsstring option"
  media :: "jsstring option"

record scheduled_message =
  rowIndex :: nat
  fecha :: "jsstring option"
  hora :: "jsstring option"
  phone :: "jsstring option"
  addAnswer :: "jsstring option"
  media :: "jsstring option"
  estado :: "jsstring option"

record sheet_service =
  flowsCache :: "flow list option"
  promptsCache :: "nat option"
  scheduledMessagesCache :: "scheduled_message list option"
  lastFlowsFetch :: int
  lastPromptsFetch :: int
  lastScheduledMessagesFetch :: int
  cacheDuration :: int

text \<open>The fields as the constructor leaves them.\<close>

definition new_sheet_service :: sheet_service where
  "new_sheet_service =
     \<lparr> flowsCache = None, promptsCache = None, scheduledMessagesCache = None,
       lastFlowsFetch = 0, lastPromptsFetch = 0, lastScheduledMessagesFetch = 0,
       cacheDuration = 5 * 60 * 1000 \<rparr>"

text \<open>\<^verbatim>\<open>row[i]\<close>: absent beyond the end of the row.\<close>

definition cell :: "row \<Rightarrow> nat \<Rightarrow> jsstring option" where
  "cell r i = (if i < length r then Some (r ! i) else None)"

text \<open>\<^verbatim>\<open>row[i] || null\<close>: an absent or empty cell is null.\<close>

definition cellOrNull :: "row \<Rightarrow> nat \<Rightarrow> jsstring option" where
  "cellOrNull r i = (case cell r i of Some c \<Rightarrow> if c \<noteq> [] then Some c else None | None \<Rightarrow> None)"

text \<open>\<^verbatim>\<open>response.data.values || []\<close>\<close>

definition rowsOf :: "row list option \<Rightarrow> row list" where
  "rowsOf vs = (case vs of Some rs \<Rightarrow> rs | None \<Rightarrow> [])"

subsection \<open>getFlows\<close>

definition flowOfRow :: "row \<Rightarrow> flow" where
  "flowOfRow r = \<lparr> addKeyword = cellOrNull r 0, addAnswer = cellOrNull r 1, media = cellOrNull r 2 \<rparr>"

text \<open>
  Each getter has the shape of \<open>getFlows\<close>: the cached value is returned when there is
  one and \<^verbatim>\<open>now - this.lastFlowsFetch < this.cacheDuration\<close>; otherwise the \<^verbatim>\<open>try\<close> block
  runs, and the \<^verbatim>\<open>catch\<close> block turns whatever it throws into the empty result. An array
  or an object is truthy also when it is empty, so the test of the cache is a test for
  null. The third component of a result lists the calls made.
\<close>

definition getFlows_try ::
  "sheets_api \<Rightarrow> int \<Rightarrow> sheet_service \<Rightarrow> flow list completion \<times> sheet_service \<times> api_call list" where
  "getFlows_try api now s =
     (case values_get api ''Flujos!A2:C'' of
        Inl e \<Rightarrow> (Thrown e, s, [ValuesGet ''Flujos!A2:C''])
      | Inr vs \<Rightarrow>
          let flows = map flowOfRow (rowsOf vs)
          in (Returned flows, s\<lparr>flowsCache := Some flows, lastFlowsFetch := now\<rparr>,
              [ValuesGet ''Flujos!A2:C'']))"

definition getFlows ::
  "sheets_api \<Rightarrow> int \<Rightarrow> sheet_service \<Rightarrow> flow list completion \<times> sheet_service \<times> api_call list" where
  "getFlows api now s =
     (case (if now - lastFlowsFetch s < cacheDuration s then flowsCache s else None) of
        Some cached \<Rightarrow> (Returned cached, s, [])
      | None \<Rightarrow>
          (case getFlows_try api now s of
             (Thrown e, s', calls) \<Rightarrow> (Returned [], s', calls)
           | r \<Rightarrow> r))"

subsection \<open>getScheduledMessages\<close>

definition messageOfRow :: "nat \<Rightarrow> row \<Rightarrow> scheduled_message" where
  "messageOfRow index r =
     \<lparr> rowIndex = index + 2, fecha = cellOrNull r 0, hora = cellOrNull r 1,
       phone = cellOrNull r 2, addAnswer = cellOrNull r 3, media = cellOrNull r 4,
       estado = cellOrNull r 5 \<rparr>"

definition getScheduledMessages_try ::
  "sheets_api \<Rightarrow> int \<Rightarrow> sheet_service \<Rightarrow>
   scheduled_message list completion \<times> sheet_service \<times> api_call list" where
  "getScheduledMessages_try api now s =
     (case values_get api ''Mensajes_Programados!A2:F'' of
        Inl e \<Rightarrow> (Thrown e, s, [ValuesGet ''Mensajes_Programados!A2:F''])
      | Inr vs \<Rightarrow>
          let scheduledMessages = map (\<lambda>(index, r). messageOfRow index r) (enumerate 0 (rowsOf vs))
          in (Returned scheduledMessages,
              s\<lparr>scheduledMessagesCache := Some scheduledMessages,
                lastScheduledMessagesFetch := now\<rparr>,
              [ValuesGet ''Mensajes_Programados!A2:F'']))"

definition getScheduledMessages ::
  "sheets_api \<Rightarrow> int \<Rightarrow> sheet_service \<Rightarrow>
   scheduled_message list completion \<times> sheet_service \<times> api_call list" where
  "getScheduledMessages api now s =
     (case (if now - lastScheduledMessagesFetch s < cacheDuration s
            then scheduledMessagesCache s else None) of
        Some cached \<Rightarrow> (Returned cached, s, [])
      | None \<Rightarrow>
          (case getScheduledMessages_try api now s of
             (Thrown e, s', calls) \<Rightarrow> (Returned [], s', calls)
           | r \<Rightarrow> r))"

subsection \<open>getPrompts\<close>

definition system_prompt :: jsstring where
  "system_prompt = latin1 ''system_prompt''"

text \<open>\<^verbatim>\<open>if (rows.length > 0 && rows[0][0]) settings['system_prompt'] = rows[0][0]\<close>\<close>

definition seedPrompt :: "row list \<Rightarrow> obj" where
  "seedPrompt rows =
     (case rows of
        [] \<Rightarrow> []
      | r # _ \<Rightarrow>
          (case cell r 0 of
             Some c \<Rightarrow> if c \<noteq> [] then setProp system_prompt (Str c) [] else []
           | None \<Rightarrow> []))"

text \<open>The body of \<^verbatim>\<open>rows.forEach\<close>: \<^verbatim>\<open>if (key && value) settings[key] = value\<close>.\<close>

definition addSetting :: "obj \<Rightarrow> row \<Rightarrow> obj" where
  "addSetting st r =
     (case (cell r 1, cell r 2) of
        (Some key, Some val) \<Rightarrow> if key \<noteq> [] \<and> val \<noteq> [] then setProp key (Str val) st else st
      | _ \<Rightarrow> st)"

definition parsePrompts :: "row list \<Rightarrow> obj" where
  "parsePrompts rows = foldl addSetting (seedPrompt rows) rows"

definition getPrompts_try ::
  "sheets_api \<Rightarrow> int \<Rightarrow> sheet_service \<Rightarrow> heap \<Rightarrow>
   nat completion \<times> sheet_service \<times> heap \<times> api_call list" where
  "getPrompts_try api now s h =
     (case values_get api ''IA_Prompts!A2:C'' of
        Inl e \<Rightarrow> (Thrown e, s, h, [ValuesGet ''IA_Prompts!A2:C''])
      | Inr vs \<Rightarrow>
          let (a, h') = alloc h (parsePrompts (rowsOf vs))
          in (Returned a, s\<lparr>promptsCache := Some a, lastPromptsFetch := now\<rparr>, h',
              [ValuesGet ''IA_Prompts!A2:C'']))"

text \<open>The result is the address of the settings object; the handler returns a new \<^verbatim>\<open>{}\<close>.\<close>

definition getPrompts ::
  "sheets_api \<Rightarrow> int \<Rightarrow> sheet_service \<Rightarrow> heap \<Rightarrow>
   nat completion \<times> sheet_service \<times> heap \<times> api_call list" where
  "getPrompts api now s h =
     (case (if now - lastPromptsFetch s < cacheDuration s then promptsCache s else None) of
        Some cached \<Rightarrow> (Returned cached, s, h, [])
      | None \<Rightarrow>
          (case getPrompts_try api now s h of
             (Thrown e, s', h', calls) \<Rightarrow>
               let (a, h'') = alloc h' [] in (Returned a, s', h'', calls)
           | r \<Rightarrow> r))"

subsection \<open>updateMessageStatus and invalidateCache\<close>

definition updateMessageStatus_try ::
  "sheets_api \<Rightarrow> nat \<Rightarrow> jsstring \<Rightarrow> sheet_service \<Rightarrow>
   bool completion \<times> sheet_service \<times> api_call list" where
  "updateMessageStatus_try api rowIx newStatus s =
     (case values_update api rowIx newStatus of
        Inl e \<Rightarrow> (Thrown e, s, [ValuesUpdate rowIx newStatus])
      | Inr _ \<Rightarrow>
          (Returned True, s\<lparr>scheduledMessagesCache := None\<rparr>, [ValuesUpdate rowIx newStatus]))"

definition updateMessageStatus ::
  "sheets_api \<Rightarrow> nat \<Rightarrow> jsstring \<Rightarrow> sheet_service \<Rightarrow>
   bool completion \<times> sheet_service \<times> api_call list" where
  "updateMessageStatus api rowIx newStatus s =
     (case updateMessageStatus_try api rowIx newStatus s of
        (Thrown e, s', calls) \<Rightarrow> (Returned False, s', calls)
      | r \<Rightarrow> r)"

definition invalidateCache :: "sheet_service \<Rightarrow> sheet_service" where
  "invalidateCache s =
     s\<lparr> flowsCache := None, promptsCache := None, scheduledMessagesCache := None,
        lastFlowsFetch := 0, lastPromptsFetch := 0, lastScheduledMessagesFetch := 0 \<rparr>"

section \<open>The flow matcher\<close>

text \<open>\<^verbatim>\<open>rawKeywords.split(",")\<close>: the empty string splits into one empty piece.\<close>

fun splitComma :: "jsstring \<Rightarrow> jsstring list" where
  "splitComma [] = [[]]"
| "splitComma (c # cs) =
     (if c = 0x2C then [] # splitComma cs
      else (case splitComma cs of [] \<Rightarrow> [[c]] | p # ps \<Rightarrow> (c # p) # ps))"

text \<open>\<^verbatim>\<open>\w\<close> and \<^verbatim>\<open>\b\<close>: a boundary lies between a word character and none.\<close>

definition isWordChar :: "code_unit \<Rightarrow> bool" where
  "isWordChar c \<longleftrightarrow>
     (0x41 \<le> c \<and> c \<le> 0x5A) \<or> (0x61 \<le> c \<and> c \<le> 0x7A) \<or> (0x30 \<le> c \<and> c \<le> 0x39) \<or> c = 0x5F"

definition wordAt :: "jsstring \<Rightarrow> nat \<Rightarrow> bool" where
  "wordAt s i \<longleftrightarrow> i < length s \<and> isWordChar (s ! i)"

definition wordBoundary :: "jsstring \<Rightarrow> nat \<Rightarrow> bool" where
  "wordBoundary s i \<longleftrightarrow> (0 < i \<and> wordAt s (i - 1)) \<noteq> wordAt s i"

text \<open>
  The flag \<^verbatim>\<open>i\<close> compares characters by their canonical form. The keyword and the message
  are normalised, so they hold kept characters only: a lowercase letter has its uppercase
  letter as canonical form, a digit or a white space character itself. A kept character
  is no metacharacter of a pattern, so the keyword stands for itself in
  \<^verbatim>\<open>new RegExp(`\\b${keyword}\\b`, "i")\<close>.
\<close>

definition canonicalize :: "code_unit \<Rightarrow> code_unit" where
  "canonicalize c = (if 0x61 \<le> c \<and> c \<le> 0x7A then c - 0x20 else c)"

definition regexWordTest :: "jsstring \<Rightarrow> jsstring \<Rightarrow> bool" where
  "regexWordTest keyword msg =
     list_ex (\<lambda>i. i + length keyword \<le> length msg \<and>
                 map canonicalize (take (length keyword) (drop i msg)) = map canonicalize keyword \<and>
                 wordBoundary msg i \<and> wordBoundary msg (i + length keyword))
       [0..<Suc (length msg)]"

text \<open>\<^verbatim>\<open>msg.includes(keyword)\<close>\<close>

definition str_includes :: "jsstring \<Rightarrow> jsstring \<Rightarrow> bool" where
  "str_includes msg keyword =
     list_ex (\<lambda>i. take (length keyword) (drop i msg) = keyword) [0..<Suc (length msg)]"

text \<open>The inner loop: \<open>True\<close> when it reaches \<^verbatim>\<open>return flow\<close>.\<close>

fun matchKeywords :: "jsstring \<Rightarrow> jsstring list \<Rightarrow> bool" where
  "matchKeywords msg [] = False"
| "matchKeywords msg (keyword # keywords) =
     (if keyword = [] then matchKeywords msg keywords
      else if msg = keyword then True
      else if regexWordTest keyword msg then True
      else if str_includes msg keyword then True
      else matchKeywords msg keywords)"

text \<open>\<^verbatim>\<open>(flow.addKeyword || "").split(",").map(k => normalizeText(k))\<close>\<close>

definition keywordsOf :: "unicode \<Rightarrow> flow \<Rightarrow> jsstring list" where
  "keywordsOf u fl =
     map (normalizeText u) (splitComma (case addKeyword fl of Some k \<Rightarrow> k | None \<Rightarrow> []))"

fun matchFlows :: "unicode \<Rightarrow> jsstring \<Rightarrow> flow list \<Rightarrow> flow option" where
  "matchFlows u msg [] = None"
| "matchFlows u msg (fl # flows) =
     (if matchKeywords msg (keywordsOf u fl) then Some fl else matchFlows u msg flows)"

definition findFlowAnswer ::
  "unicode \<Rightarrow> sheets_api \<Rightarrow> int \<Rightarrow> jsstring \<Rightarrow> sheet_service \<Rightarrow>
   flow option completion \<times> sheet_service \<times> api_call list" where
  "findFlowAnswer u api now userMessage s =
     (let msg = normalizeText u userMessage
      in (case getFlows api now s of
            (Returned flows, s', calls) \<Rightarrow> (Returned (matchFlows u msg flows), s', calls)
          | (Thrown e, s', calls) \<Rightarrow> (Thrown e, s', calls)))"

section \<open>The chat service\<close>

record groq_service =
  settings :: "nat option"


text \<open>
  One round of \<^verbatim>\<open>for (const key in settings)\<close>:
  \<^verbatim>\<open>if (!isNaN(settings[key])) settings[key] = Number(settings[key])\<close>.
\<close>

definition coerceKey :: "obj \<Rightarrow> jsstring \<Rightarrow> obj" where
  "coerceKey ob key =
     (case getProp ob key of
        Some v \<Rightarrow> if \<not> js_isNaN v then setProp key (Num (js_Number v)) ob else ob
      | None \<Rightarrow> ob)"

definition coerceSettings :: "obj \<Rightarrow> obj" where
  "coerceSettings ob = foldl coerceKey ob (map fst ob)"

text \<open>The loop writes to the object that \<^verbatim>\<open>getPrompts\<close> returned, at its address.\<close>

definition loadSettings ::
  "sheets_api \<Rightarrow> int \<Rightarrow> groq_service \<Rightarrow> sheet_service \<Rightarrow> heap \<Rightarrow>
   unit completion \<times> groq_service \<times> sheet_service \<times> heap \<times> api_call list" where
  "loadSettings api now g s h =
     (case getPrompts api now s h of
        (Returned a, s', h', calls) \<Rightarrow>
          (Returned (), g\<lparr>settings := Some a\<rparr>, s', h'[a := coerceSettings (h' ! a)], calls)
      | (Thrown e, s', h', calls) \<Rightarrow> (Thrown e, g, s', h', calls))"

definition defaultPrompt :: jsstring where
  "defaultPrompt = latin1 ''Eres un asistente '' @ [0xFA] @ latin1 ''til.''"

text \<open>\<^verbatim>\<open>this.settings.system_prompt || 'Eres un asistente util.'\<close>\<close>

definition systemContent :: "groq_service \<Rightarrow> heap \<Rightarrow> jsval completion" where
  "systemContent g h =
     (case settings g of
        None \<Rightarrow> Thrown (Exn ''TypeError'')
      | Some a \<Rightarrow>
          Returned (case getProp (h ! a) system_prompt of
                      Some v \<Rightarrow> if truthy v then v else Str defaultPrompt
                    | None \<Rightarrow> Str defaultPrompt))"

definition requestMessages :: "jsval \<Rightarrow> message list \<Rightarrow> jsstring \<Rightarrow> message list" where
  "requestMessages sys contextMessages userInput =
     [\<lparr> role = latin1 ''system'', content = sys \<rparr>] @ contextMessages @
     [\<lparr> role = latin1 ''user'', content = Str userInput \<rparr>]"

text \<open>
  The body of the \<^verbatim>\<open>try\<close> block of \<^verbatim>\<open>getResponse\<close>. The list \<open>messages\<close> is built and
  handed to no call: \<^verbatim>\<open>const aiResponse = ''\<close>.
\<close>

definition getResponse_try ::
  "chat_history \<Rightarrow> jsstring \<Rightarrow> jsstring option \<Rightarrow> groq_service \<Rightarrow> heap \<Rightarrow>
   jsstring completion \<times> api_call list" where
  "getResponse_try hist userInput phoneNumber g h =
     (case systemContent g h of
        Thrown e \<Rightarrow> (Thrown e, [])
      | Returned sys \<Rightarrow>
          (case (case phoneNumber of Some p \<Rightarrow> if p \<noteq> [] then Some p else None | None \<Rightarrow> None) of
             None \<Rightarrow>
               let messages = requestMessages sys [] userInput;
                   aiResponse = []
               in (Returned aiResponse, [])
           | Some p \<Rightarrow>
               (case getContextForAI hist p of
                  Inl e \<Rightarrow> (Thrown e, [GetContextForAI p])
                | Inr contextMessages \<Rightarrow>
                    let messages = requestMessages sys contextMessages userInput;
                        aiResponse = []
                    in (case saveMessage hist p (latin1 ''user'') userInput of
                          Inl e \<Rightarrow>
                            (Thrown e, [GetContextForAI p, SaveMessage p (latin1 ''user'') userInput])
                        | Inr _ \<Rightarrow>
                            (case saveMessage hist p (latin1 ''assistant'') aiResponse of
                               Inl e \<Rightarrow>
                                 (Thrown e,
                                  [GetContextForAI p, SaveMessage p (latin1 ''user'') userInput,
                                   SaveMessage p (latin1 ''assistant'') aiResponse])
                             | Inr _ \<Rightarrow>
                                 (Returned aiResponse,
                                  [GetContextForAI p, SaveMessage p (latin1 ''user'') userInput,
                                   SaveMessage p (latin1 ''assistant'') aiResponse]))))))"

definition getResponse ::
  "sheets_api \<Rightarrow> chat_history \<Rightarrow> int \<Rightarrow> jsstring \<Rightarrow> jsstring option \<Rightarrow>
   groq_service \<Rightarrow> sheet_service \<Rightarrow> heap \<Rightarrow>
   jsstring completion \<times> groq_service \<times> sheet_service \<times> heap \<times> api_call list" where
  "getResponse api hist now userInput phoneNumber g s h =
     (case (if settings g = None then loadSettings api now g s h
            else (Returned (), g, s, h, [])) of
        (Thrown e, g1, s1, h1, calls1) \<Rightarrow> (Thrown e, g1, s1, h1, calls1)
      | (Returned _, g1, s1, h1, calls1) \<Rightarrow>
          (case getResponse_try hist userInput phoneNumber g1 h1 of
             (Thrown e, calls2) \<Rightarrow> (Returned [], g1, s1, h1, calls1 @ calls2)
           | (r, calls2) \<Rightarrow> (r, g1, s1, h1, calls1 @ calls2)))"

section \<open>The behaviour the specification describes, where the code differs\<close>

text \<open>
  Prompt parsing in the words of the specification: the first row seeds \<open>system_prompt\<close>,
  and every row thereafter contributes its key and value.
\<close>

definition spec_parsePrompts :: "row list \<Rightarrow> obj" where
  "spec_parsePrompts rows = foldl addSetting (seedPrompt rows) (tl rows)"

section \<open>Notions used to state the properties\<close>

text \<open>A keyword satisfies a tier: exact, whole word, or substring.\<close>

definition satisfiesTier :: "jsstring \<Rightarrow> jsstring \<Rightarrow> bool" where
  "satisfiesTier msg keyword \<longleftrightarrow>
     msg = keyword \<or> regexWordTest keyword msg \<or> str_includes msg keyword"

text \<open>A flow matches when one of its non-empty normalised keywords satisfies a tier.\<close>

definition flowMatches :: "unicode \<Rightarrow> jsstring \<Rightarrow> flow \<Rightarrow> bool" where
  "flowMatches u msg fl \<longleftrightarrow>
     list_ex (\<lambda>keyword. keyword \<noteq> [] \<and> satisfiesTier msg keyword) (keywordsOf u fl)"

text \<open>A row sets the key: its second cell is the key and its third cell is present.\<close>

definition setsKey :: "jsstring \<Rightarrow> row \<Rightarrow> bool" where
  "setsKey key r =
     (case (cell r 1, cell r 2) of
        (Some k, Some v) \<Rightarrow> k = key \<and> k \<noteq> [] \<and> v \<noteq> []
      | _ \<Rightarrow> False)"

text \<open>The value the first cell of the first row gives to \<open>system_prompt\<close>, when present.\<close>

definition seedValue :: "row list \<Rightarrow> jsval option" where
  "seedValue rows =
     (case rows of
        [] \<Rightarrow> None
      | r # _ \<Rightarrow> (case cell r 0 of Some c \<Rightarrow> if c \<noteq> [] then Some (Str c) else None | None \<Rightarrow> None))"


text \<open>A call to the completion service.\<close>

definition isChatCompletion :: "api_call \<Rightarrow> bool" where
  "isChatCompletion c = (case c of ChatCompletion _ \<Rightarrow> True | _ \<Rightarrow> False)"

section \<open>Example data\<close>

text \<open>A small sheet, a spreadsheet that answers every call, and one that fails every call.\<close>

definition example_rows :: "row list" where
  "example_rows =
     [[latin1 ''hola'', latin1 ''Bienvenido''],
      [latin1 ''hola buenos dias'', latin1 ''Buenos dias'', latin1 ''foto.png'']]"

definition example_api :: sheets_api where
  "example_api = \<lparr> values_get = (\<lambda>range. Inr (Some example_rows)), values_update = (\<lambda>ix v. Inr ()) \<rparr>"

definition failing_api :: sheets_api where
  "failing_api =
     \<lparr> values_get = (\<lambda>range. Inl (Exn ''quota'')), values_update = (\<lambda>ix v. Inl (Exn ''quota'')) \<rparr>"

definition example_service :: sheet_service where
  "example_service =
     \<lparr> flowsCache = Some (map flowOfRow example_rows), promptsCache = Some 0,
       scheduledMessagesCache = Some (map (\<lambda>(index, r). messageOfRow index r) (enumerate 0 example_rows)),
       lastFlowsFetch = 1000, lastPromptsFetch = 1000, lastScheduledMessagesFetch = 1000,
       cacheDuration = 5 * 60 * 1000 \<rparr>"

definition prompt_rows :: "row list" where
  "prompt_rows =
     [[latin1 ''Eres un bot'', latin1 ''temperature'', latin1 ''0.7''],
      [[], latin1 ''max_tokens'', latin1 ''42''],
      [[], latin1 ''model'', latin1 ''abc''],
      [[], latin1 ''temperature'', latin1 ''3.5'']]"


section \<open>Properties of the text normalizer\<close>

lemma dropWhile_rev_dropWhile:
  "dropWhile P (rev (dropWhile P (rev (dropWhile P xs)))) = rev (dropWhile P (rev (dropWhile P xs)))"
proof -
  let ?ys = "dropWhile P xs"
  let ?t = "dropWhile P (rev ?ys)"
  have split: "?ys = rev ?t @ rev (takeWhile P (rev ?ys))"
    by (metis rev_append rev_rev_ident takeWhile_dropWhile_id)
  show ?thesis
  proof (cases "?t = []")
    case True
    show ?thesis unfolding True by simp
  next
    case False
    then have "rev ?t \<noteq> []" by simp
    then have "hd ?ys = hd (rev ?t)"
      using split by (metis hd_append2)
    moreover have "?ys \<noteq> []"
    proof
      assume e: "?ys = []"
      have "?t = []" unfolding e by simp
      with False show False ..
    qed
    then have "\<not> P (hd ?ys)"
      by (rule hd_dropWhile)
    ultimately show ?thesis
      by (simp add: dropWhile_eq_self_iff)
  qed
qed

lemma trim_idem: "trim (trim s) = trim s"
  unfolding trim_def by (simp add: dropWhile_rev_dropWhile)

lemma set_trim: "set (trim s) \<subseteq> set s"
  unfolding trim_def by (auto dest!: set_dropWhileD)

lemma kept_not_mark: "isKept c \<Longrightarrow> \<not> isCombiningMark c"
  unfolding isKept_def isLowerAlnum_def isWhiteSpace_def isCombiningMark_def
  by unat_arith

lemma kept_lower: "isKept c \<Longrightarrow> lower_unit c = c"
  unfolding isKept_def isLowerAlnum_def isWhiteSpace_def lower_unit_def
  by unat_arith

lemma decomposition_range:
  "map_of latin1_decompositions c = Some d \<Longrightarrow>
     ((0xC0 \<le> c \<and> c \<le> 0xFF) \<or> c = 0x2000 \<or> c = 0x2001) \<and> 0x2000 \<notin> set d \<and> 0x2001 \<notin> set d"
  unfolding latin1_decompositions_def
  by (auto split: if_splits)

lemma decomposition_quads:
  "map_of latin1_decompositions c = None \<Longrightarrow> c \<noteq> 0x2000 \<and> c \<noteq> 0x2001"
  unfolding latin1_decompositions_def
  by (auto split: if_splits)

lemma kept_decompose:
  assumes "isKept c" "c \<noteq> 0x2000" "c \<noteq> 0x2001"
  shows "decompose_unit c = [c]"
proof (cases "map_of latin1_decompositions c")
  case None
  then show ?thesis by (simp add: decompose_unit_def)
next
  case (Some d)
  then have "0xC0 \<le> c \<and> c \<le> 0xFF"
    using decomposition_range[OF Some] assms by simp
  moreover have "\<not> (0xC0 \<le> c \<and> c \<le> 0xFF)"
    using assms(1) unfolding isKept_def isLowerAlnum_def isWhiteSpace_def by unat_arith
  ultimately show ?thesis by simp
qed

lemma decompose_no_quads: "0x2000 \<notin> set (decompose_unit c) \<and> 0x2001 \<notin> set (decompose_unit c)"
proof (cases "map_of latin1_decompositions c")
  case None
  then show ?thesis
    using decomposition_quads[OF None] by (simp add: decompose_unit_def)
next
  case (Some d)
  then show ?thesis
    using decomposition_range[OF Some] by (simp add: decompose_unit_def)
qed

lemma latin1_unicode_facts: "unicode_facts latin1_unicode"
proof -
  have l: "map lower_unit s = s" if "\<forall>c \<in> set s. isKept c" for s
    using that by (simp add: kept_lower map_idI)
  have d: "concat (map decompose_unit s) = s"
    if "\<forall>c \<in> set s. isKept c \<and> c \<noteq> 0x2000 \<and> c \<noteq> 0x2001" for s
    using that by (induction s) (simp_all add: kept_decompose)
  have q: "0x2000 \<notin> set (concat (map decompose_unit s)) \<and> 0x2001 \<notin> set (concat (map decompose_unit s))" for s
    using decompose_no_quads by auto
  show ?thesis
    unfolding unicode_facts_def latin1_unicode_def
    using l d q by simp
qed

lemma normalizeText_kept: "c \<in> set (normalizeText u x) \<Longrightarrow> isKept c"
  using set_trim[of "filter isKept (filter (\<lambda>c. \<not> isCombiningMark c) (normalizeNFD u (toLowerCase u x)))"]
  unfolding normalizeText_def by auto

lemma normalizeText_decomposed:
  "c \<in> set (normalizeText u x) \<Longrightarrow> c \<in> set (normalizeNFD u (toLowerCase u x))"
  using set_trim[of "filter isKept (filter (\<lambda>c. \<not> isCombiningMark c) (normalizeNFD u (toLowerCase u x)))"]
  unfolding normalizeText_def by auto

lemma normalizeText_trimmed: "trim (normalizeText u x) = normalizeText u x"
  unfolding normalizeText_def by (rule trim_idem)

text \<open>
  Claim C6. The input is \<^verbatim>\<open>Hola  Buenos!\<close> with U+00F3 (o with acute accent) for both
  letters o and with two spaces between the words. The specification gives \<^verbatim>\<open>hola buenos\<close>,
  with one space, as its normal form. The normalizer drops marks and symbols and trims
  the ends, and has no step that joins inner white space: the result is not that string.
\<close>

theorem normalizeText_example_counterexample:
  "normalizeText latin1_unicode (latin1 ''H'' @ [0xF3] @ latin1 ''la  Buen'' @ [0xF3] @ latin1 ''s!'')
     \<noteq> latin1 ''hola buenos''"
  by code_simp

text \<open>
  Claim C6, amended: the normalizer maps that input to \<^verbatim>\<open>hola  buenos\<close>, with both
  spaces, on every engine that lowercases the input letter by letter and decomposes each
  U+00F3 into the letter o and the mark U+0301.
\<close>

theorem normalizeText_example:
  assumes "toLowerCase u (latin1 ''H'' @ [0xF3] @ latin1 ''la  Buen'' @ [0xF3] @ latin1 ''s!'')
             = latin1 ''h'' @ [0xF3] @ latin1 ''la  buen'' @ [0xF3] @ latin1 ''s!''"
    and "normalizeNFD u (latin1 ''h'' @ [0xF3] @ latin1 ''la  buen'' @ [0xF3] @ latin1 ''s!'')
             = latin1 ''ho'' @ [0x301] @ latin1 ''la  bueno'' @ [0x301] @ latin1 ''s!''"
  shows "normalizeText u (latin1 ''H'' @ [0xF3] @ latin1 ''la  Buen'' @ [0xF3] @ latin1 ''s!'')
           = latin1 ''hola  buenos''"
  unfolding normalizeText_def assms
  by code_simp

theorem normalizeText_example_witness:
  "toLowerCase latin1_unicode (latin1 ''H'' @ [0xF3] @ latin1 ''la  Buen'' @ [0xF3] @ latin1 ''s!'')
     = latin1 ''h'' @ [0xF3] @ latin1 ''la  buen'' @ [0xF3] @ latin1 ''s!'' \<and>
   normalizeNFD latin1_unicode (latin1 ''h'' @ [0xF3] @ latin1 ''la  buen'' @ [0xF3] @ latin1 ''s!'')
     = latin1 ''ho'' @ [0x301] @ latin1 ''la  bueno'' @ [0x301] @ latin1 ''s!'' \<and>
   normalizeText latin1_unicode (latin1 ''H'' @ [0xF3] @ latin1 ''la  Buen'' @ [0xF3] @ latin1 ''s!'')
     = latin1 ''hola  buenos''"
proof -
  have l: "toLowerCase latin1_unicode (latin1 ''H'' @ [0xF3] @ latin1 ''la  Buen'' @ [0xF3] @ latin1 ''s!'')
     = latin1 ''h'' @ [0xF3] @ latin1 ''la  buen'' @ [0xF3] @ latin1 ''s!''"
    by code_simp
  have d: "normalizeNFD latin1_unicode (latin1 ''h'' @ [0xF3] @ latin1 ''la  buen'' @ [0xF3] @ latin1 ''s!'')
     = latin1 ''ho'' @ [0x301] @ latin1 ''la  bueno'' @ [0x301] @ latin1 ''s!''"
    by code_simp
  show ?thesis
    using normalizeText_example[OF l d] l d by blast
qed

text \<open>
  Claim C9. The normalizer is idempotent on every input, on an engine whose Unicode
  functions satisfy \<open>unicode_facts\<close>.
\<close>

theorem normalizeText_idempotent:
  assumes "unicode_facts u"
  shows "normalizeText u (normalizeText u x) = normalizeText u x"
proof -
  let ?y = "normalizeText u x"
  have kept: "\<forall>c \<in> set ?y. isKept c"
    using normalizeText_kept by blast
  have noquad: "\<forall>c \<in> set ?y. c \<noteq> 0x2000 \<and> c \<noteq> 0x2001"
    using normalizeText_decomposed[of _ u x] assms unfolding unicode_facts_def by metis
  have lower: "toLowerCase u ?y = ?y"
    using assms kept unfolding unicode_facts_def by blast
  have nfd: "normalizeNFD u ?y = ?y"
    using assms kept noquad unfolding unicode_facts_def by blast
  have marks: "filter (\<lambda>c. \<not> isCombiningMark c) ?y = ?y"
    using kept kept_not_mark by (simp add: filter_id_conv)
  have keep: "filter isKept ?y = ?y"
    using kept by (simp add: filter_id_conv)
  have "normalizeText u ?y = trim ?y"
    unfolding normalizeText_def[of u ?y] lower nfd marks keep ..
  then show ?thesis
    by (simp add: normalizeText_trimmed)
qed

theorem normalizeText_idempotent_witness:
  "unicode_facts latin1_unicode \<and>
   normalizeText latin1_unicode
     (normalizeText latin1_unicode (latin1 ''  H'' @ [0xF3] @ latin1 ''la,  Mu'' @ [0xD1] @ latin1 ''DO 42! '')) =
   latin1 ''hola  mundo 42''"
proof -
  have e: "normalizeText latin1_unicode (latin1 ''  H'' @ [0xF3] @ latin1 ''la,  Mu'' @ [0xD1] @ latin1 ''DO 42! '')
      = latin1 ''hola  mundo 42''"
    by code_simp
  show ?thesis
    using normalizeText_idempotent[OF latin1_unicode_facts, of "latin1 ''  H'' @ [0xF3] @ latin1 ''la,  Mu'' @ [0xD1] @ latin1 ''DO 42! ''"]
      latin1_unicode_facts
    by (simp only: e simp_thms)
qed

section \<open>Properties of the caches\<close>

lemma getFlows_hit:
  "flowsCache s = Some cached \<Longrightarrow> now - lastFlowsFetch s < cacheDuration s \<Longrightarrow>
   getFlows api now s = (Returned cached, s, [])"
  by (simp add: getFlows_def)

lemma getFlows_miss:
  "flowsCache s = None \<or> \<not> now - lastFlowsFetch s < cacheDuration s \<Longrightarrow>
   getFlows api now s =
     (case values_get api ''Flujos!A2:C'' of
        Inl e \<Rightarrow> (Returned [], s, [ValuesGet ''Flujos!A2:C''])
      | Inr vs \<Rightarrow>
          (Returned (map flowOfRow (rowsOf vs)),
           s\<lparr>flowsCache := Some (map flowOfRow (rowsOf vs)), lastFlowsFetch := now\<rparr>,
           [ValuesGet ''Flujos!A2:C'']))"
  by (auto simp: getFlows_def getFlows_try_def Let_def split: sum.splits)

lemma getFlows_calls:
  "snd (snd (getFlows api now s)) =
     (if flowsCache s \<noteq> None \<and> now - lastFlowsFetch s < cacheDuration s then []
      else [ValuesGet ''Flujos!A2:C''])"
  by (auto simp: getFlows_hit getFlows_miss split: sum.splits)

lemma getScheduledMessages_hit:
  "scheduledMessagesCache s = Some cached \<Longrightarrow>
   now - lastScheduledMessagesFetch s < cacheDuration s \<Longrightarrow>
   getScheduledMessages api now s = (Returned cached, s, [])"
  by (simp add: getScheduledMessages_def)

lemma getScheduledMessages_miss:
  "scheduledMessagesCache s = None \<or> \<not> now - lastScheduledMessagesFetch s < cacheDuration s \<Longrightarrow>
   getScheduledMessages api now s =
     (case values_get api ''Mensajes_Programados!A2:F'' of
        Inl e \<Rightarrow> (Returned [], s, [ValuesGet ''Mensajes_Programados!A2:F''])
      | Inr vs \<Rightarrow>
          (Returned (map (\<lambda>(index, r). messageOfRow index r) (enumerate 0 (rowsOf vs))),
           s\<lparr>scheduledMessagesCache :=
                Some (map (\<lambda>(index, r). messageOfRow index r) (enumerate 0 (rowsOf vs))),
             lastScheduledMessagesFetch := now\<rparr>,
           [ValuesGet ''Mensajes_Programados!A2:F'']))"
  by (auto simp: getScheduledMessages_def getScheduledMessages_try_def Let_def split: sum.splits)

lemma getScheduledMessages_calls:
  "snd (snd (getScheduledMessages api now s)) =
     (if scheduledMessagesCache s \<noteq> None \<and> now - lastScheduledMessagesFetch s < cacheDuration s
      then [] else [ValuesGet ''Mensajes_Programados!A2:F''])"
  by (auto simp: getScheduledMessages_hit getScheduledMessages_miss split: sum.splits)

lemma getPrompts_hit:
  "promptsCache s = Some cached \<Longrightarrow> now - lastPromptsFetch s < cacheDuration s \<Longrightarrow>
   getPrompts api now s h = (Returned cached, s, h, [])"
  by (simp add: getPrompts_def)

lemma getPrompts_miss:
  "promptsCache s = None \<or> \<not> now - lastPromptsFetch s < cacheDuration s \<Longrightarrow>
   getPrompts api now s h =
     (case values_get api ''IA_Prompts!A2:C'' of
        Inl e \<Rightarrow> (Returned (length h), s, h @ [[]], [ValuesGet ''IA_Prompts!A2:C''])
      | Inr vs \<Rightarrow>
          (Returned (length h), s\<lparr>promptsCache := Some (length h), lastPromptsFetch := now\<rparr>,
           h @ [parsePrompts (rowsOf vs)], [ValuesGet ''IA_Prompts!A2:C'']))"
  by (auto simp: getPrompts_def getPrompts_try_def alloc_def Let_def split: sum.splits)

lemma getPrompts_calls:
  "snd (snd (snd (getPrompts api now s h))) =
     (if promptsCache s \<noteq> None \<and> now - lastPromptsFetch s < cacheDuration s then []
      else [ValuesGet ''IA_Prompts!A2:C''])"
  by (auto simp: getPrompts_hit getPrompts_miss split: sum.splits)

lemma example_fetches:
  "getFlows example_api 1000 new_sheet_service =
     (Returned (map flowOfRow example_rows),
      new_sheet_service\<lparr>flowsCache := Some (map flowOfRow example_rows), lastFlowsFetch := 1000\<rparr>,
      [ValuesGet ''Flujos!A2:C''])"
  "getScheduledMessages example_api 1000 new_sheet_service =
     (Returned (map (\<lambda>(index, r). messageOfRow index r) (enumerate 0 example_rows)),
      new_sheet_service\<lparr>scheduledMessagesCache :=
          Some (map (\<lambda>(index, r). messageOfRow index r) (enumerate 0 example_rows)),
        lastScheduledMessagesFetch := 1000\<rparr>,
      [ValuesGet ''Mensajes_Programados!A2:F''])"
  "getPrompts example_api 1000 new_sheet_service [] =
     (Returned 0, new_sheet_service\<lparr>promptsCache := Some 0, lastPromptsFetch := 1000\<rparr>,
      [parsePrompts example_rows], [ValuesGet ''IA_Prompts!A2:C''])"
  by (simp_all add: getFlows_miss getScheduledMessages_miss getPrompts_miss
      example_api_def new_sheet_service_def rowsOf_def)

text \<open>
  Claim C1. For each of the three cached resources: when a call at time \<open>T\<close> has invoked
  the fetch and the fetch has succeeded, a later call at any time before
  \<open>T + cacheDuration\<close> returns the stored value, leaves the state as it is and makes no
  call to the spreadsheet; a call at \<open>T + cacheDuration\<close> or later calls the spreadsheet
  again. The test is \<open>now - fetchedAt < cacheDuration\<close>, strictly less.
\<close>

theorem ttl_cache_freshness:
  "(values_get api0 ''Flujos!A2:C'' = Inr vs \<and>
    getFlows api0 T s0 = (Returned flows, s1, [ValuesGet ''Flujos!A2:C'']) \<longrightarrow>
      (now < T + cacheDuration s1 \<longrightarrow> getFlows api now s1 = (Returned flows, s1, [])) \<and>
      (T + cacheDuration s1 \<le> now \<longrightarrow>
         snd (snd (getFlows api now s1)) = [ValuesGet ''Flujos!A2:C''])) \<and>
   (values_get api0 ''Mensajes_Programados!A2:F'' = Inr vs \<and>
    getScheduledMessages api0 T s0 = (Returned msgs, s2, [ValuesGet ''Mensajes_Programados!A2:F'']) \<longrightarrow>
      (now < T + cacheDuration s2 \<longrightarrow> getScheduledMessages api now s2 = (Returned msgs, s2, [])) \<and>
      (T + cacheDuration s2 \<le> now \<longrightarrow>
         snd (snd (getScheduledMessages api now s2)) = [ValuesGet ''Mensajes_Programados!A2:F''])) \<and>
   (values_get api0 ''IA_Prompts!A2:C'' = Inr vs \<and>
    getPrompts api0 T s0 h0 = (Returned a, s3, h3, [ValuesGet ''IA_Prompts!A2:C'']) \<longrightarrow>
      (now < T + cacheDuration s3 \<longrightarrow> getPrompts api now s3 h = (Returned a, s3, h, [])) \<and>
      (T + cacheDuration s3 \<le> now \<longrightarrow>
         snd (snd (snd (getPrompts api now s3 h))) = [ValuesGet ''IA_Prompts!A2:C'']))"
proof (intro conjI impI; elim conjE)
  assume ok: "values_get api0 ''Flujos!A2:C'' = Inr vs"
    and run: "getFlows api0 T s0 = (Returned flows, s1, [ValuesGet ''Flujos!A2:C''])"
  have miss: "flowsCache s0 = None \<or> \<not> T - lastFlowsFetch s0 < cacheDuration s0"
    using getFlows_calls[of api0 T s0] run by (auto split: if_splits)
  have st: "flowsCache s1 = Some flows \<and> lastFlowsFetch s1 = T"
    using getFlows_miss[OF miss, of api0] run ok by auto
  { assume "now < T + cacheDuration s1"
    then show "getFlows api now s1 = (Returned flows, s1, [])"
      using st by (simp add: getFlows_hit) }
  { assume "T + cacheDuration s1 \<le> now"
    then show "snd (snd (getFlows api now s1)) = [ValuesGet ''Flujos!A2:C'']"
      using st by (simp add: getFlows_calls) }
next
  assume ok: "values_get api0 ''Mensajes_Programados!A2:F'' = Inr vs"
    and run: "getScheduledMessages api0 T s0 =
      (Returned msgs, s2, [ValuesGet ''Mensajes_Programados!A2:F''])"
  have miss: "scheduledMessagesCache s0 = None \<or>
      \<not> T - lastScheduledMessagesFetch s0 < cacheDuration s0"
    using getScheduledMessages_calls[of api0 T s0] run by (auto split: if_splits)
  have st: "scheduledMessagesCache s2 = Some msgs \<and> lastScheduledMessagesFetch s2 = T"
    using getScheduledMessages_miss[OF miss, of api0] run ok by auto
  { assume "now < T + cacheDuration s2"
    then show "getScheduledMessages api now s2 = (Returned msgs, s2, [])"
      using st by (simp add: getScheduledMessages_hit) }
  { assume "T + cacheDuration s2 \<le> now"
    then show "snd (snd (getScheduledMessages api now s2)) =
        [ValuesGet ''Mensajes_Programados!A2:F'']"
      using st by (simp add: getScheduledMessages_calls) }
next
  assume ok: "values_get api0 ''IA_Prompts!A2:C'' = Inr vs"
    and run: "getPrompts api0 T s0 h0 = (Returned a, s3, h3, [ValuesGet ''IA_Prompts!A2:C''])"
  have miss: "promptsCache s0 = None \<or> \<not> T - lastPromptsFetch s0 < cacheDuration s0"
    using getPrompts_calls[of api0 T s0 h0] run by (auto split: if_splits)
  have st: "promptsCache s3 = Some a \<and> lastPromptsFetch s3 = T"
    using getPrompts_miss[OF miss, of api0 h0] run ok by auto
  { assume "now < T + cacheDuration s3"
    then show "getPrompts api now s3 h = (Returned a, s3, h, [])"
      using st by (simp add: getPrompts_hit) }
  { assume "T + cacheDuration s3 \<le> now"
    then show "snd (snd (snd (getPrompts api now s3 h))) = [ValuesGet ''IA_Prompts!A2:C'']"
      using st by (simp add: getPrompts_calls) }
qed

theorem ttl_cache_freshness_witness:
  "values_get example_api ''Flujos!A2:C'' = Inr (Some example_rows) \<and>
   getFlows example_api 1000 new_sheet_service =
     (Returned (map flowOfRow example_rows),
      new_sheet_service\<lparr>flowsCache := Some (map flowOfRow example_rows), lastFlowsFetch := 1000\<rparr>,
      [ValuesGet ''Flujos!A2:C'']) \<and>
   getFlows failing_api 300999
      (new_sheet_service\<lparr>flowsCache := Some (map flowOfRow example_rows), lastFlowsFetch := 1000\<rparr>) =
     (Returned (map flowOfRow example_rows),
      new_sheet_service\<lparr>flowsCache := Some (map flowOfRow example_rows), lastFlowsFetch := 1000\<rparr>,
      []) \<and>
   snd (snd (getFlows failing_api 301000
      (new_sheet_service\<lparr>flowsCache := Some (map flowOfRow example_rows), lastFlowsFetch := 1000\<rparr>))) =
     [ValuesGet ''Flujos!A2:C''] \<and>
   snd (snd (getScheduledMessages failing_api 301000
      (new_sheet_service\<lparr>scheduledMessagesCache :=
          Some (map (\<lambda>(index, r). messageOfRow index r) (enumerate 0 example_rows)),
        lastScheduledMessagesFetch := 1000\<rparr>))) =
     [ValuesGet ''Mensajes_Programados!A2:F''] \<and>
   getPrompts failing_api 300999
      (new_sheet_service\<lparr>promptsCache := Some 0, lastPromptsFetch := 1000\<rparr>) [parsePrompts example_rows] =
     (Returned 0, new_sheet_service\<lparr>promptsCache := Some 0, lastPromptsFetch := 1000\<rparr>,
      [parsePrompts example_rows], [])"
proof -
  have ok: "values_get example_api range = Inr (Some example_rows)" for range
    by (simp add: example_api_def)
  have d: "cacheDuration (new_sheet_service\<lparr>flowsCache := x, lastFlowsFetch := y\<rparr>) = 300000"
    "cacheDuration (new_sheet_service\<lparr>scheduledMessagesCache := x', lastScheduledMessagesFetch := y\<rparr>) = 300000"
    "cacheDuration (new_sheet_service\<lparr>promptsCache := x'', lastPromptsFetch := y\<rparr>) = 300000"
    for x x' x'' y
    by (simp_all add: new_sheet_service_def)
  note t1 = ttl_cache_freshness[where ?api0.0 = example_api and vs = "Some example_rows" and T = 1000
      and ?s0.0 = new_sheet_service and now = 300999 and api = failing_api
      and ?h0.0 = "[]" and h = "[parsePrompts example_rows]"]
  note t2 = ttl_cache_freshness[where ?api0.0 = example_api and vs = "Some example_rows" and T = 1000
      and ?s0.0 = new_sheet_service and now = 301000 and api = failing_api
      and ?h0.0 = "[]" and h = "[parsePrompts example_rows]"]
  show ?thesis
    using t1 t2 example_fetches ok d by simp
qed

text \<open>
  Claim C2. For each of the three cached resources: when a call invokes the fetch and the
  spreadsheet throws, the service (cached values and timestamps) is unchanged, the call
  returns normally, and its result is the empty list for flows and scheduled messages and
  a new empty object for prompts, every object of the heap being left as it was.
\<close>

theorem fetch_failure_isolated:
  "(values_get api ''Flujos!A2:C'' = Inl e \<and>
    snd (snd (getFlows api now s)) = [ValuesGet ''Flujos!A2:C''] \<longrightarrow>
      getFlows api now s = (Returned [], s, [ValuesGet ''Flujos!A2:C''])) \<and>
   (values_get api ''Mensajes_Programados!A2:F'' = Inl e \<and>
    snd (snd (getScheduledMessages api now s)) = [ValuesGet ''Mensajes_Programados!A2:F''] \<longrightarrow>
      getScheduledMessages api now s = (Returned [], s, [ValuesGet ''Mensajes_Programados!A2:F''])) \<and>
   (values_get api ''IA_Prompts!A2:C'' = Inl e \<and>
    snd (snd (snd (getPrompts api now s h))) = [ValuesGet ''IA_Prompts!A2:C''] \<longrightarrow>
      getPrompts api now s h = (Returned (length h), s, h @ [[]], [ValuesGet ''IA_Prompts!A2:C'']))"
proof (intro conjI impI; elim conjE)
  assume bad: "values_get api ''Flujos!A2:C'' = Inl e"
    and run: "snd (snd (getFlows api now s)) = [ValuesGet ''Flujos!A2:C'']"
  have "flowsCache s = None \<or> \<not> now - lastFlowsFetch s < cacheDuration s"
    using run by (auto simp: getFlows_calls split: if_splits)
  then show "getFlows api now s = (Returned [], s, [ValuesGet ''Flujos!A2:C''])"
    using bad by (simp add: getFlows_miss)
next
  assume bad: "values_get api ''Mensajes_Programados!A2:F'' = Inl e"
    and run: "snd (snd (getScheduledMessages api now s)) = [ValuesGet ''Mensajes_Programados!A2:F'']"
  have "scheduledMessagesCache s = None \<or> \<not> now - lastScheduledMessagesFetch s < cacheDuration s"
    using run by (auto simp: getScheduledMessages_calls split: if_splits)
  then show "getScheduledMessages api now s =
      (Returned [], s, [ValuesGet ''Mensajes_Programados!A2:F''])"
    using bad by (simp add: getScheduledMessages_miss)
next
  assume bad: "values_get api ''IA_Prompts!A2:C'' = Inl e"
    and run: "snd (snd (snd (getPrompts api now s h))) = [ValuesGet ''IA_Prompts!A2:C'']"
  have "promptsCache s = None \<or> \<not> now - lastPromptsFetch s < cacheDuration s"
    using run by (auto simp: getPrompts_calls split: if_splits)
  then show "getPrompts api now s h =
      (Returned (length h), s, h @ [[]], [ValuesGet ''IA_Prompts!A2:C''])"
    using bad by (simp add: getPrompts_miss)
qed

theorem fetch_failure_isolated_witness:
  "values_get failing_api ''Flujos!A2:C'' = Inl (Exn ''quota'') \<and>
   getFlows failing_api 301000 example_service =
     (Returned [], example_service, [ValuesGet ''Flujos!A2:C'']) \<and>
   getScheduledMessages failing_api 301000 example_service =
     (Returned [], example_service, [ValuesGet ''Mensajes_Programados!A2:F'']) \<and>
   getPrompts failing_api 301000 example_service [parsePrompts example_rows] =
     (Returned 1, example_service, [parsePrompts example_rows, []], [ValuesGet ''IA_Prompts!A2:C''])"
proof -
  have bad: "values_get failing_api range = Inl (Exn ''quota'')" for range
    by (simp add: failing_api_def)
  have c: "snd (snd (getFlows failing_api 301000 example_service)) = [ValuesGet ''Flujos!A2:C'']"
    "snd (snd (getScheduledMessages failing_api 301000 example_service)) =
       [ValuesGet ''Mensajes_Programados!A2:F'']"
    "snd (snd (snd (getPrompts failing_api 301000 example_service [parsePrompts example_rows]))) =
       [ValuesGet ''IA_Prompts!A2:C'']"
    by (simp_all add: getFlows_calls getScheduledMessages_calls getPrompts_calls example_service_def)
  show ?thesis
    using fetch_failure_isolated[of failing_api "Exn ''quota''" 301000 example_service
        "[parsePrompts example_rows]"] bad c
    by simp
qed

text \<open>
  Claim C3. \<open>updateMessageStatus\<close> returns true exactly when the write succeeds; then it
  clears the scheduled-messages cache, so that the next \<open>getScheduledMessages\<close> calls the
  spreadsheet whatever the time. When the write throws it returns false and leaves the
  service unchanged. In both cases the flows and prompts caches and their timestamps are
  untouched, and a \<open>getFlows\<close> within the freshness window still returns the cached flows
  without a call.
\<close>

theorem updateMessageStatus_targeted:
  "(fst (updateMessageStatus api rowIx newStatus s) = Returned True \<longleftrightarrow>
      values_update api rowIx newStatus = Inr ()) \<and>
   (values_update api rowIx newStatus = Inr () \<longrightarrow>
      updateMessageStatus api rowIx newStatus s =
        (Returned True, s\<lparr>scheduledMessagesCache := None\<rparr>, [ValuesUpdate rowIx newStatus]) \<and>
      snd (snd (getScheduledMessages api' now (fst (snd (updateMessageStatus api rowIx newStatus s))))) =
        [ValuesGet ''Mensajes_Programados!A2:F'']) \<and>
   (values_update api rowIx newStatus = Inl e \<longrightarrow>
      updateMessageStatus api rowIx newStatus s =
        (Returned False, s, [ValuesUpdate rowIx newStatus])) \<and>
   flowsCache (fst (snd (updateMessageStatus api rowIx newStatus s))) = flowsCache s \<and>
   lastFlowsFetch (fst (snd (updateMessageStatus api rowIx newStatus s))) = lastFlowsFetch s \<and>
   promptsCache (fst (snd (updateMessageStatus api rowIx newStatus s))) = promptsCache s \<and>
   lastPromptsFetch (fst (snd (updateMessageStatus api rowIx newStatus s))) = lastPromptsFetch s \<and>
   (flowsCache s = Some flows \<and> now - lastFlowsFetch s < cacheDuration s \<longrightarrow>
      fst (getFlows api' now (fst (snd (updateMessageStatus api rowIx newStatus s)))) = Returned flows \<and>
      snd (snd (getFlows api' now (fst (snd (updateMessageStatus api rowIx newStatus s))))) = [])"
proof (cases "values_update api rowIx newStatus")
  case (Inl e')
  then have u: "updateMessageStatus api rowIx newStatus s =
      (Returned False, s, [ValuesUpdate rowIx newStatus])"
    by (simp add: updateMessageStatus_def updateMessageStatus_try_def)
  show ?thesis
    unfolding u using Inl by (simp add: getFlows_hit)
next
  case (Inr x)
  then have u: "updateMessageStatus api rowIx newStatus s =
      (Returned True, s\<lparr>scheduledMessagesCache := None\<rparr>, [ValuesUpdate rowIx newStatus])"
    by (simp add: updateMessageStatus_def updateMessageStatus_try_def)
  show ?thesis
    unfolding u using Inr by (simp add: getFlows_hit getScheduledMessages_calls)
qed

theorem updateMessageStatus_targeted_witness:
  "values_update example_api 3 (latin1 ''Enviado'') = Inr () \<and>
   updateMessageStatus example_api 3 (latin1 ''Enviado'') example_service =
     (Returned True, example_service\<lparr>scheduledMessagesCache := None\<rparr>,
      [ValuesUpdate 3 (latin1 ''Enviado'')]) \<and>
   flowsCache example_service = Some (map flowOfRow example_rows) \<and>
   300999 - lastFlowsFetch example_service < cacheDuration example_service \<and>
   fst (getFlows failing_api 300999
     (fst (snd (updateMessageStatus example_api 3 (latin1 ''Enviado'') example_service)))) =
     Returned (map flowOfRow example_rows) \<and>
   values_update failing_api 3 (latin1 ''Enviado'') = Inl (Exn ''quota'') \<and>
   updateMessageStatus failing_api 3 (latin1 ''Enviado'') example_service =
     (Returned False, example_service, [ValuesUpdate 3 (latin1 ''Enviado'')])"
proof -
  have a: "values_update example_api 3 (latin1 ''Enviado'') = Inr ()"
    "values_update failing_api 3 (latin1 ''Enviado'') = Inl (Exn ''quota'')"
    by (simp_all add: example_api_def failing_api_def)
  have b: "flowsCache example_service = Some (map flowOfRow example_rows)"
    "300999 - lastFlowsFetch example_service < cacheDuration example_service"
    by (simp_all add: example_service_def)
  show ?thesis
    using updateMessageStatus_targeted[where api = example_api and rowIx = 3
        and newStatus = "latin1 ''Enviado''" and s = example_service and api' = failing_api
        and now = 300999 and flows = "map flowOfRow example_rows"]
      updateMessageStatus_targeted[where api = failing_api and rowIx = 3
        and newStatus = "latin1 ''Enviado''" and s = example_service and e = "Exn ''quota''"]
      a b
    by blast
qed

section \<open>Properties of the flow matcher\<close>

lemma matchKeywords_iff:
  "matchKeywords msg ks \<longleftrightarrow>
     list_ex (\<lambda>keyword. keyword \<noteq> [] \<and> satisfiesTier msg keyword) ks"
  by (induction ks) (auto simp: satisfiesTier_def)

lemma matchFlows_find: "matchFlows u msg flows = List.find (flowMatches u msg) flows"
  by (induction flows) (simp_all add: matchKeywords_iff flowMatches_def)

lemma normalizeText_fixed:
  assumes "unicode_facts u" and "\<forall>c \<in> set s. isKept c \<and> c \<noteq> 0x2000 \<and> c \<noteq> 0x2001"
  shows "normalizeText u s = trim s"
proof -
  have lower: "toLowerCase u s = s"
    using assms unfolding unicode_facts_def by blast
  have nfd: "normalizeNFD u s = s"
    using assms unfolding unicode_facts_def by blast
  have marks: "filter (\<lambda>c. \<not> isCombiningMark c) s = s"
    using assms(2) kept_not_mark by (simp add: filter_id_conv)
  have keep: "filter isKept s = s"
    using assms(2) by (simp add: filter_id_conv)
  show ?thesis
    unfolding normalizeText_def lower nfd marks keep ..
qed

lemma normalize_hola:
  assumes "unicode_facts u"
  shows "normalizeText u (latin1 ''hola'') = latin1 ''hola''"
    and "normalizeText u (latin1 ''hola buenos dias'') = latin1 ''hola buenos dias''"
proof -
  have a: "\<forall>c \<in> set (latin1 ''hola''). isKept c \<and> c \<noteq> 0x2000 \<and> c \<noteq> 0x2001"
    by code_simp
  have b: "\<forall>c \<in> set (latin1 ''hola buenos dias''). isKept c \<and> c \<noteq> 0x2000 \<and> c \<noteq> 0x2001"
    by code_simp
  have ta: "trim (latin1 ''hola'') = latin1 ''hola''" by code_simp
  have tb: "trim (latin1 ''hola buenos dias'') = latin1 ''hola buenos dias''" by code_simp
  show "normalizeText u (latin1 ''hola'') = latin1 ''hola''"
    using normalizeText_fixed[OF assms a] ta by simp
  show "normalizeText u (latin1 ''hola buenos dias'') = latin1 ''hola buenos dias''"
    using normalizeText_fixed[OF assms b] tb by simp
qed

text \<open>
  Claim C4. The matcher returns the first flow, in the order of the table, one of whose
  keywords satisfies a tier, and none exactly when no flow of the table matches;
  \<open>findFlowAnswer\<close> applies it to the normalised message and the flows that \<open>getFlows\<close>
  returns. For the flows with keywords \<^verbatim>\<open>"hola"\<close> and \<^verbatim>\<open>"hola buenos dias"\<close> and the message
  \<^verbatim>\<open>"hola buenos dias"\<close> the first flow is returned.
\<close>

theorem matchFlows_first_match:
  "(matchFlows u msg flows = Some fl \<longleftrightarrow>
      (\<exists>i < length flows. flows ! i = fl \<and> flowMatches u msg fl \<and>
         (\<forall>j < i. \<not> flowMatches u msg (flows ! j)))) \<and>
   (matchFlows u msg flows = None \<longleftrightarrow> (\<forall>f \<in> set flows. \<not> flowMatches u msg f)) \<and>
   (getFlows api now s = (Returned flows, s', calls) \<longrightarrow>
      findFlowAnswer u api now userMessage s =
        (Returned (matchFlows u (normalizeText u userMessage) flows), s', calls)) \<and>
   (unicode_facts u \<longrightarrow>
      matchFlows u (normalizeText u (latin1 ''hola buenos dias''))
        [\<lparr> addKeyword = Some (latin1 ''hola''), addAnswer = a1, media = m1 \<rparr>,
         \<lparr> addKeyword = Some (latin1 ''hola buenos dias''), addAnswer = a2, media = m2 \<rparr>] =
      Some \<lparr> addKeyword = Some (latin1 ''hola''), addAnswer = a1, media = m1 \<rparr>)"
proof (intro conjI impI)
  show "matchFlows u msg flows = Some fl \<longleftrightarrow>
      (\<exists>i < length flows. flows ! i = fl \<and> flowMatches u msg fl \<and>
         (\<forall>j < i. \<not> flowMatches u msg (flows ! j)))"
    unfolding matchFlows_find find_Some_iff by auto
  show "matchFlows u msg flows = None \<longleftrightarrow> (\<forall>f \<in> set flows. \<not> flowMatches u msg f)"
    unfolding matchFlows_find find_None_iff by auto
next
  assume "getFlows api now s = (Returned flows, s', calls)"
  then show "findFlowAnswer u api now userMessage s =
      (Returned (matchFlows u (normalizeText u userMessage) flows), s', calls)"
    by (simp add: findFlowAnswer_def)
next
  assume facts: "unicode_facts u"
  have sp: "splitComma (latin1 ''hola'') = [latin1 ''hola'']"
    by code_simp
  have m: "matchKeywords (latin1 ''hola buenos dias'') [latin1 ''hola'']"
    by code_simp
  have k: "keywordsOf u \<lparr> addKeyword = Some (latin1 ''hola''), addAnswer = a1, media = m1 \<rparr> =
      [latin1 ''hola'']"
    by (simp add: keywordsOf_def sp normalize_hola(1)[OF facts])
  have "matchKeywords (normalizeText u (latin1 ''hola buenos dias''))
      (keywordsOf u \<lparr> addKeyword = Some (latin1 ''hola''), addAnswer = a1, media = m1 \<rparr>)"
    by (simp only: k normalize_hola(2)[OF facts] m)
  then show "matchFlows u (normalizeText u (latin1 ''hola buenos dias''))
        [\<lparr> addKeyword = Some (latin1 ''hola''), addAnswer = a1, media = m1 \<rparr>,
         \<lparr> addKeyword = Some (latin1 ''hola buenos dias''), addAnswer = a2, media = m2 \<rparr>] =
      Some \<lparr> addKeyword = Some (latin1 ''hola''), addAnswer = a1, media = m1 \<rparr>"
    by (simp only: matchFlows.simps if_True)
qed

theorem matchFlows_first_match_witness:
  "unicode_facts latin1_unicode \<and>
   getFlows example_api 1000 new_sheet_service =
     (Returned (map flowOfRow example_rows),
      new_sheet_service\<lparr>flowsCache := Some (map flowOfRow example_rows), lastFlowsFetch := 1000\<rparr>,
      [ValuesGet ''Flujos!A2:C'']) \<and>
   fst (findFlowAnswer latin1_unicode example_api 1000 (latin1 ''Hola, buenos dias!'') new_sheet_service) =
     Returned (Some (flowOfRow [latin1 ''hola'', latin1 ''Bienvenido''])) \<and>
   matchFlows latin1_unicode (latin1 ''adios'') (map flowOfRow example_rows) = None \<and>
   list_all (\<lambda>f. \<not> flowMatches latin1_unicode (latin1 ''adios'') f) (map flowOfRow example_rows)"
proof -
  have n: "matchFlows latin1_unicode (latin1 ''adios'') (map flowOfRow example_rows) = None"
    by code_simp
  have f: "matchFlows latin1_unicode (normalizeText latin1_unicode (latin1 ''Hola, buenos dias!''))
      (map flowOfRow example_rows) = Some (flowOfRow [latin1 ''hola'', latin1 ''Bienvenido''])"
    by code_simp
  note t = matchFlows_first_match[where u = latin1_unicode and msg = "latin1 ''adios''"
      and flows = "map flowOfRow example_rows" and api = example_api and now = 1000
      and s = new_sheet_service and userMessage = "latin1 ''Hola, buenos dias!''"]
  show ?thesis
    using t n f example_fetches(1) latin1_unicode_facts by (simp add: list_all_iff)
qed

section \<open>Properties of prompt parsing\<close>

lemma getProp_update_prop:
  "getProp (update_prop k v ob) k' = (if k' = k then Some v else getProp ob k')"
  by (induction ob) (auto simp: getProp_def)

lemma getProp_setProp:
  "k \<noteq> latin1 ''__proto__'' \<Longrightarrow>
   getProp (setProp k v ob) k' = (if k' = k then Some v else getProp ob k')"
  by (simp add: setProp_def getProp_update_prop)

lemma getProp_setProp_other:
  "k' \<noteq> latin1 ''__proto__'' \<Longrightarrow>
   getProp (setProp k v ob) k' = (if k' = k then Some v else getProp ob k')"
  by (auto simp: setProp_def getProp_update_prop)

lemma getProp_addSetting:
  "key \<noteq> latin1 ''__proto__'' \<Longrightarrow>
   getProp (addSetting st r) key =
     (if setsKey key r then map_option Str (cell r 2) else getProp st key)"
  by (auto simp: addSetting_def setsKey_def getProp_setProp_other split: option.splits)

lemma getProp_foldl_addSetting:
  "key \<noteq> latin1 ''__proto__'' \<Longrightarrow>
   getProp (foldl addSetting st rows) key =
     (case List.find (setsKey key) (rev rows) of
        Some r \<Rightarrow> map_option Str (cell r 2)
      | None \<Rightarrow> getProp st key)"
  by (induction rows rule: rev_induct) (simp_all add: getProp_addSetting)

lemma latin1_inj: "latin1 a = latin1 b \<Longrightarrow> length a = length b"
  by (metis latin1_def length_map)

lemma system_prompt_not_proto: "system_prompt \<noteq> latin1 ''__proto__''"
  unfolding system_prompt_def using latin1_inj by fastforce

lemma getProp_empty: "getProp [] k = None"
  by (simp add: getProp_def)

lemma getProp_seedPrompt:
  "getProp (seedPrompt rows) key = (if key = system_prompt then seedValue rows else None)"
  by (auto simp: seedPrompt_def seedValue_def getProp_setProp system_prompt_not_proto
      getProp_empty split: list.splits option.splits)

text \<open>
  Claim C5. The specification lets only the rows after the first contribute a key and a
  value. The loop \<^verbatim>\<open>rows.forEach\<close> runs over every row: a first row with a key and a value
  contributes them.
\<close>

theorem parsePrompts_first_row_counterexample:
  "getProp (parsePrompts [[latin1 ''Eres un bot'', latin1 ''temperature'', latin1 ''0.7'']])
     (latin1 ''temperature'') = Some (Str (latin1 ''0.7'')) \<and>
   getProp (spec_parsePrompts [[latin1 ''Eres un bot'', latin1 ''temperature'', latin1 ''0.7'']])
     (latin1 ''temperature'') = None"
  by code_simp

text \<open>
  Claim C5, amended: the first cell of the first row, when present, seeds
  \<open>system_prompt\<close>, and every row, the first included, contributes its key and value when
  both are present; the last such row in source order decides the value of a key (also
  of \<open>system_prompt\<close>). The key \<^verbatim>\<open>__proto__\<close> is left out: a JavaScript object stores no
  such entry.
\<close>

theorem parsePrompts_lookup:
  "key \<noteq> latin1 ''__proto__'' \<Longrightarrow>
   getProp (parsePrompts rows) key =
     (case List.find (setsKey key) (rev rows) of
        Some r \<Rightarrow> map_option Str (cell r 2)
      | None \<Rightarrow> if key = system_prompt then seedValue rows else None)"
  by (simp add: parsePrompts_def getProp_foldl_addSetting getProp_seedPrompt split: option.splits)

theorem parsePrompts_lookup_witness:
  "latin1 ''temperature'' \<noteq> latin1 ''__proto__'' \<and>
   List.find (setsKey (latin1 ''temperature'')) (rev prompt_rows) =
     Some [[], latin1 ''temperature'', latin1 ''3.5''] \<and>
   getProp (parsePrompts prompt_rows) (latin1 ''temperature'') = Some (Str (latin1 ''3.5'')) \<and>
   List.find (setsKey system_prompt) (rev prompt_rows) = None \<and>
   getProp (parsePrompts prompt_rows) system_prompt = Some (Str (latin1 ''Eres un bot'')) \<and>
   List.find (setsKey (latin1 ''max_tokens'')) (rev [hd prompt_rows]) = None \<and>
   List.find (setsKey (latin1 ''temperature'')) (rev [hd prompt_rows]) = Some (hd prompt_rows) \<and>
   getProp (parsePrompts [hd prompt_rows]) (latin1 ''temperature'') = Some (Str (latin1 ''0.7''))"
proof -
  have a: "latin1 ''temperature'' \<noteq> latin1 ''__proto__''" "system_prompt \<noteq> latin1 ''__proto__''"
    by code_simp+
  have f: "List.find (setsKey (latin1 ''temperature'')) (rev prompt_rows) =
      Some [[], latin1 ''temperature'', latin1 ''3.5'']"
    "List.find (setsKey system_prompt) (rev prompt_rows) = None"
    "List.find (setsKey (latin1 ''max_tokens'')) (rev [hd prompt_rows]) = None"
    "List.find (setsKey (latin1 ''temperature'')) (rev [hd prompt_rows]) = Some (hd prompt_rows)"
    by code_simp+
  have c: "map_option Str (cell [[], latin1 ''temperature'', latin1 ''3.5''] 2) = Some (Str (latin1 ''3.5''))"
    "seedValue prompt_rows = Some (Str (latin1 ''Eres un bot''))"
    "map_option Str (cell (hd prompt_rows) 2) = Some (Str (latin1 ''0.7''))"
    by code_simp+
  show ?thesis
    using parsePrompts_lookup[OF a(1), of prompt_rows] parsePrompts_lookup[OF a(2), of prompt_rows]
      parsePrompts_lookup[OF a(1), of "[hd prompt_rows]"]
    by (simp only: a f c option.case simp_thms if_True)
qed

section \<open>Properties of settings resolution\<close>




















section \<open>Properties of the chat service\<close>

lemma getPrompts_returns:
  "\<exists>a s' h' calls. getPrompts api now s h = (Returned a, s', h', calls)"
proof (cases "promptsCache s = None \<or> \<not> now - lastPromptsFetch s < cacheDuration s")
  case True
  then show ?thesis
    by (cases "values_get api ''IA_Prompts!A2:C''") (simp_all add: getPrompts_miss)
next
  case False
  then show ?thesis
    by (auto simp: getPrompts_hit)
qed

lemma getPrompts_no_completion:
  "filter isChatCompletion (snd (snd (snd (getPrompts api now s h)))) = []"
  by (simp add: getPrompts_calls isChatCompletion_def)

lemma loadSettings_returns:
  "\<exists>g' s' h' calls. loadSettings api now g s h = (Returned (), g', s', h', calls) \<and>
     filter isChatCompletion calls = []"
proof -
  obtain a s' h' calls where p: "getPrompts api now s h = (Returned a, s', h', calls)"
    using getPrompts_returns by blast
  have "filter isChatCompletion calls = []"
    using getPrompts_no_completion[of api now s h] p by simp
  then show ?thesis
    by (simp add: loadSettings_def p)
qed

lemma getResponse_try_cases:
  "(fst (getResponse_try hist userInput phoneNumber g h) = Returned [] \<or>
    (\<exists>e. fst (getResponse_try hist userInput phoneNumber g h) = Thrown e)) \<and>
   filter isChatCompletion (snd (getResponse_try hist userInput phoneNumber g h)) = []"
  unfolding getResponse_try_def
  by (simp add: isChatCompletion_def Let_def split: completion.split option.split sum.split)

text \<open>
  Claim C10. The specification has \<open>getResponse\<close> call the completion service and return
  its text. On every input \<open>getResponse\<close> returns the empty string, and none of its calls
  is a call to the completion service.
\<close>

theorem getResponse_returns_empty:
  "fst (getResponse api hist now userInput phoneNumber g s h) = Returned [] \<and>
   filter isChatCompletion
     (snd (snd (snd (snd (getResponse api hist now userInput phoneNumber g s h))))) = []"
proof -
  obtain g1 s1 h1 calls1 where
    l: "(if settings g = None then loadSettings api now g s h else (Returned (), g, s, h, [])) =
        (Returned (), g1, s1, h1, calls1)"
    and c1: "filter isChatCompletion calls1 = []"
    using loadSettings_returns[of api now g s h] by (cases "settings g = None") auto
  obtain r calls2 where t: "getResponse_try hist userInput phoneNumber g1 h1 = (r, calls2)"
    by (cases "getResponse_try hist userInput phoneNumber g1 h1")
  have r: "r = Returned [] \<or> (\<exists>e. r = Thrown e)" and c2: "filter isChatCompletion calls2 = []"
    using getResponse_try_cases[of hist userInput phoneNumber g1 h1] t by auto
  show ?thesis
    unfolding getResponse_def l using r c1 c2 by (auto simp: t)
qed

end
